theory Spec2Isabelle
  imports Main "HOL-Library.Mapping"
begin

section \<open>Go values and the types of the SDKs\<close>

text \<open>
  A Go \<open>error\<close> is identified with the text its \<open>Error()\<close> method returns; wrapping
  with \<open>fmt.Errorf("...: %w", err)\<close> prepends the prefix to that text. A \<open>*string\<close> that
  may be nil is a \<open>string option\<close>, and so is an injected client. A call that dereferences
  nil, or calls a method of a nil interface, does not return: its outcome is \<open>Panics\<close>.
  The output a client returns together with a nil error, and the settings of a
  datasource, are not nil.
\<close>

type_synonym error = string

datatype 'a outcome = Returns 'a | Panics

text \<open>
  Modelled from the spec: \<open>models.PluginSettings\<close> (package \<open>pkg/models\<close>), the two
  required settings, workflow identifier string and storage bucket name string, under the
  field names \<open>datasource.go\<close> reads.
\<close>

record PluginSettings =
  StepFunctionArn :: string
  S3Bucket :: string

text \<open>\<open>queryModel\<close> and \<open>StepFunctionInput\<close> of \<open>datasource.go\<close>; \<open>map[string][]int\<close> is a
  mapping from strings to integer lists (the integers are passed on, never computed with).\<close>

record queryModel =
  Action :: string
  JobId :: string
  Extract :: "(string, int list) mapping"

record StepFunctionInput =
  JobId :: string
  Bucket :: string
  Extract :: "(string, int list) mapping"

text \<open>\<open>backend.DataQuery\<close>: the fields \<open>query\<close> reads.\<close>

record DataQuery =
  RefID :: string
  JSON :: string

text \<open>\<open>arn.ARN\<close> of the AWS SDK.\<close>

record ARN =
  Partition :: string
  Service :: string
  Region :: string
  AccountID :: string
  Resource :: string

text \<open>Step Functions: the parameters the datasource sets and the output fields it reads.\<close>

record StartExecutionInput =
  Name :: string
  StateMachineArn :: string
  Input :: string

record StartExecutionOutput =
  ExecutionArn :: "string option"

record DescribeExecutionInput =
  ExecutionArn :: string

record DescribeExecutionOutput =
  Status :: string
  Error :: "string option"
  Cause :: "string option"

record DescribeStateMachineInput =
  StateMachineArn :: string

record SFNClientInterface =
  StartExecution :: "StartExecutionInput \<Rightarrow> error + StartExecutionOutput"
  DescribeExecution :: "DescribeExecutionInput \<Rightarrow> error + DescribeExecutionOutput"
  DescribeStateMachine :: "DescribeStateMachineInput \<Rightarrow> error + unit"

text \<open>S3 presigning. \<open>time.Duration\<close> counts nanoseconds.\<close>

record GetObjectInput =
  Bucket :: string
  Key :: string

record PresignOptions =
  Expires :: int

record PresignedHTTPRequest =
  URL :: string
  Method :: string

type_synonym S3PresignerInterface =
  "GetObjectInput \<Rightarrow> (PresignOptions \<Rightarrow> PresignOptions) list \<Rightarrow> error + PresignedHTTPRequest"

definition time_Hour :: int where
  "time_Hour = 60 * (60 * (1000 * (1000 * 1000)))"

text \<open>The options a presign call runs under: its option functions applied, in order, to
  the zero value.\<close>

definition presign_options :: "(PresignOptions \<Rightarrow> PresignOptions) list \<Rightarrow> PresignOptions" where
  "presign_options optFns = fold (\<lambda>f opts. f opts) optFns \<lparr>Expires = 0\<rparr>"

text \<open>Data frames and responses of the plugin SDK. A field built by
  \<open>data.NewField(name, nil, []string{...})\<close> is its name and its values.\<close>

record Field =
  Name :: string
  Values :: "string list"

record Frame =
  Name :: string
  Fields :: "Field list"

record DataResponse =
  Frames :: "Frame list"
  Error :: "error option"
  Status :: nat

datatype HealthStatus = HealthStatusUnknown | HealthStatusOk | HealthStatusError

record CheckHealthResult =
  Status :: HealthStatus
  Message :: string

definition StatusBadRequest :: nat where
  "StatusBadRequest = 400"

definition ErrDataResponse :: "nat \<Rightarrow> string \<Rightarrow> DataResponse" where
  "ErrDataResponse status message =
     \<lparr>Frames = [], DataResponse.Error = Some message, DataResponse.Status = status\<rparr>"

definition NewField :: "string \<Rightarrow> string list \<Rightarrow> Field" where
  "NewField name vals = \<lparr>Field.Name = name, Values = vals\<rparr>"

definition NewFrame :: "string \<Rightarrow> Frame" where
  "NewFrame name = \<lparr>Frame.Name = name, Fields = []\<rparr>"

section \<open>Effects\<close>

text \<open>
  Every operation on an injected client and every log line is an event; a function
  returns its value together with the events it caused, in order. Log events keep the
  level and the message.
\<close>

datatype level = LevelDebug | LevelInfo | LevelWarn | LevelError

datatype call =
    SFN_StartExecution StartExecutionInput
  | SFN_DescribeExecution DescribeExecutionInput
  | SFN_DescribeStateMachine DescribeStateMachineInput
  | S3_PresignGetObject GetObjectInput PresignOptions
  | Log level string

fun is_StartExecution :: "call \<Rightarrow> bool" where
  "is_StartExecution (SFN_StartExecution _) = True"
| "is_StartExecution _ = False"

fun is_DescribeExecution :: "call \<Rightarrow> bool" where
  "is_DescribeExecution (SFN_DescribeExecution _) = True"
| "is_DescribeExecution _ = False"

fun is_PresignGetObject :: "call \<Rightarrow> bool" where
  "is_PresignGetObject (S3_PresignGetObject _ _) = True"
| "is_PresignGetObject _ = False"

fun is_Log :: "call \<Rightarrow> bool" where
  "is_Log (Log _ _) = True"
| "is_Log _ = False"

text \<open>The external operations among the events: everything but the log lines.\<close>

definition external_calls :: "call list \<Rightarrow> call list" where
  "external_calls tr = filter (\<lambda>c. \<not> is_Log c) tr"

section \<open>The packages the datasource calls\<close>

text \<open>
  \<open>json.Marshal\<close>, \<open>json.Unmarshal\<close> (package \<open>encoding/json\<close>) and \<open>arn.Parse\<close> (AWS
  SDK) are parameters of the model: every theorem holds for whatever they compute.
\<close>

record packages =
  json_Marshal :: "StepFunctionInput \<Rightarrow> error + string"
  json_Unmarshal :: "string \<Rightarrow> error + queryModel"
  arn_Parse :: "string \<Rightarrow> error + ARN"

text \<open>\<open>strings.Replace(s, old, new, 1)\<close> for a non-empty \<open>old\<close>: the first occurrence of
  \<open>old\<close> in \<open>s\<close> is replaced.\<close>

fun strings_Replace1 :: "string \<Rightarrow> string \<Rightarrow> string \<Rightarrow> string" where
  "strings_Replace1 [] old new = []"
| "strings_Replace1 (c # cs) old new =
     (if take (length old) (c # cs) = old then new @ drop (length old) (c # cs)
      else c # strings_Replace1 cs old new)"

fun strings_Join :: "string list \<Rightarrow> string \<Rightarrow> string" where
  "strings_Join [] sep = []"
| "strings_Join [x] sep = x"
| "strings_Join (x # y # ys) sep = x @ sep @ strings_Join (y # ys) sep"

text \<open>\<open>strings.Contains\<close>, to state that a message names a field or a value.\<close>

fun strings_Contains :: "string \<Rightarrow> string \<Rightarrow> bool" where
  "strings_Contains [] substr = (substr = [])"
| "strings_Contains (c # cs) substr =
     (take (length substr) (c # cs) = substr \<or> strings_Contains cs substr)"

section \<open>The datasource\<close>

record Datasource =
  settings :: PluginSettings
  sfnClient :: "SFNClientInterface option"
  s3Presigner :: "S3PresignerInterface option"

definition validateSettings :: "Datasource \<Rightarrow> error option" where
  "validateSettings d =
     (if StepFunctionArn (settings d) = [] then Some ''Step Function ARN not configured''
      else if S3Bucket (settings d) = [] then Some ''S3 Bucket name not configured''
      else None)"

definition executeStepFunction ::
  "packages \<Rightarrow> Datasource \<Rightarrow> string \<Rightarrow> StepFunctionInput \<Rightarrow> (error + string) outcome \<times> call list" where
  "executeStepFunction L d name input =
     (case json_Marshal L input of
        Inl err \<Rightarrow> (Returns (Inl (''failed to marshal Step Function input: '' @ err)), [])
      | Inr inputStr \<Rightarrow>
          (case sfnClient d of
             None \<Rightarrow> (Panics, [])
           | Some client \<Rightarrow>
               let params = \<lparr>StartExecutionInput.Name = name,
                             StartExecutionInput.StateMachineArn = StepFunctionArn (settings d),
                             Input = inputStr\<rparr>
               in (case StartExecution client params of
                     Inl err \<Rightarrow>
                       (Returns (Inl (''failed to execute Step Function execution: '' @ err)),
                        [SFN_StartExecution params])
                   | Inr result \<Rightarrow>
                       (case StartExecutionOutput.ExecutionArn result of
                          None \<Rightarrow> (Panics, [SFN_StartExecution params])
                        | Some executionArn \<Rightarrow>
                            (Returns (Inr executionArn), [SFN_StartExecution params])))))"

definition generatePresignedURL ::
  "Datasource \<Rightarrow> string \<Rightarrow> string \<Rightarrow> (error + string) \<times> call list" where
  "generatePresignedURL d bucket key =
     (case s3Presigner d of
        None \<Rightarrow> (Inl ''S3 presigner is not initialized'', [])
      | Some presigner \<Rightarrow>
          let params = \<lparr>GetObjectInput.Bucket = bucket, Key = key\<rparr>;
              optFns = [\<lambda>opts. opts\<lparr>Expires := time_Hour * 1\<rparr>]
          in (case presigner params optFns of
                Inl err \<Rightarrow>
                  (Inl (''failed to generate presigned URL: '' @ err),
                   [S3_PresignGetObject params (presign_options optFns)])
              | Inr request \<Rightarrow>
                  (Inr (URL request), [S3_PresignGetObject params (presign_options optFns)])))"

definition handleRequestAction ::
  "packages \<Rightarrow> Datasource \<Rightarrow> queryModel \<Rightarrow> DataResponse outcome \<times> call list" where
  "handleRequestAction L d qm =
     (if Mapping.is_empty (queryModel.Extract qm) then
        (Returns (ErrDataResponse StatusBadRequest
           ''Extract parameter is required for request action''), [])
      else if queryModel.JobId qm = [] then
        (Returns (ErrDataResponse StatusBadRequest ''JobId is required for request action''), [])
      else
        let log1 = [Log LevelInfo ''Processing request action''];
            sfnInput = \<lparr>StepFunctionInput.JobId = queryModel.JobId qm,
                        StepFunctionInput.Bucket = S3Bucket (settings d),
                        StepFunctionInput.Extract = queryModel.Extract qm\<rparr>
        in (case executeStepFunction L d (queryModel.JobId qm) sfnInput of
              (Panics, calls) \<Rightarrow> (Panics, log1 @ calls)
            | (Returns (Inl err), calls) \<Rightarrow>
                (Returns (ErrDataResponse StatusBadRequest
                   (''Step Function execution failed: '' @ err)),
                 log1 @ calls @ [Log LevelError ''Failed to execute Step Function''])
            | (Returns (Inr executionArn), calls) \<Rightarrow>
                let frame = (NewFrame ''step_function_request'')
                      \<lparr>Fields := [NewField ''status'' [''RUNNING''],
                                  NewField ''job_id'' [queryModel.JobId qm]]\<rparr>
                in (Returns \<lparr>Frames = [frame], DataResponse.Error = None, DataResponse.Status = 0\<rparr>,
                    log1 @ calls @ [Log LevelDebug ''Step Function executed successfully''])))"

definition handleStatusAction ::
  "packages \<Rightarrow> Datasource \<Rightarrow> queryModel \<Rightarrow> DataResponse outcome \<times> call list" where
  "handleStatusAction L d qm =
     (if queryModel.JobId qm = [] then
        (Returns (ErrDataResponse StatusBadRequest ''JobId is required for status action''), [])
      else
        let log1 = [Log LevelInfo ''Processing status action'']
        in (case arn_Parse L (StepFunctionArn (settings d)) of
              Inl err \<Rightarrow>
                (Returns (ErrDataResponse StatusBadRequest
                   (''Failed to parse Step Function ARN: '' @ err)), log1)
            | Inr arn \<Rightarrow>
                let executionArn = ''arn:aws:states:'' @ Region arn @ '':'' @ AccountID arn
                      @ '':execution:'' @ strings_Replace1 (Resource arn) ''stateMachine:'' []
                      @ '':'' @ queryModel.JobId qm;
                    log2 = log1 @ [Log LevelInfo ''Trying to describe Step Function execution'']
                in (case sfnClient d of
                      None \<Rightarrow> (Panics, log2)
                    | Some client \<Rightarrow>
                        let params = \<lparr>DescribeExecutionInput.ExecutionArn = executionArn\<rparr>;
                            tr = log2 @ [SFN_DescribeExecution params]
                        in (case DescribeExecution client params of
                              Inl err \<Rightarrow>
                                (Returns (ErrDataResponse StatusBadRequest
                                   (''Failed to get execution status: '' @ err)),
                                 tr @ [Log LevelError ''Failed to describe Step Function execution''])
                            | Inr result \<Rightarrow>
                                let status = DescribeExecutionOutput.Status result;
                                    tr1 = tr @ [Log LevelInfo ''Step Function execution status''];
                                    fields1 = [NewField ''status'' [status]];
                                    fields2 =
                                      (if status = ''FAILED'' then
                                         (case DescribeExecutionOutput.Error result of
                                            None \<Rightarrow> fields1
                                          | Some e \<Rightarrow> fields1 @ [NewField ''error'' [e]])
                                       else fields1);
                                    fields3 =
                                      (case Cause result of
                                         None \<Rightarrow> fields2
                                       | Some c \<Rightarrow> fields2 @ [NewField ''cause'' [c]]);
                                    (fields4, tr2) =
                                      (if status = ''SUCCEEDED'' then
                                         let s3Key = queryModel.JobId qm @ ''.pcapng''
                                         in (case generatePresignedURL d (S3Bucket (settings d)) s3Key of
                                               (Inl err, calls) \<Rightarrow>
                                                 (fields3,
                                                  tr1 @ calls @ [Log LevelWarn
                                                    ''Failed to generate presigned URL for completed execution''])
                                             | (Inr presignedURL, calls) \<Rightarrow>
                                                 (fields3 @ [NewField ''download_url'' [presignedURL]],
                                                  tr1 @ calls))
                                       else (fields3, tr1));
                                    frame = (NewFrame ''step_function_status'')\<lparr>Fields := fields4\<rparr>
                                in (Returns \<lparr>Frames = [frame], DataResponse.Error = None,
                                             DataResponse.Status = 0\<rparr>, tr2)))))"

definition query ::
  "packages \<Rightarrow> Datasource \<Rightarrow> DataQuery \<Rightarrow> DataResponse outcome \<times> call list" where
  "query L d q =
     (case validateSettings d of
        Some err \<Rightarrow>
          (Returns (ErrDataResponse StatusBadRequest (''Incomplete plugin settings: '' @ err)), [])
      | None \<Rightarrow>
          (case json_Unmarshal L (JSON q) of
             Inl err \<Rightarrow>
               (Returns (ErrDataResponse StatusBadRequest (''json unmarshal: '' @ err)), [])
           | Inr qm \<Rightarrow>
               if Action qm = ''request'' then handleRequestAction L d qm
               else if Action qm = ''status'' then handleStatusAction L d qm
               else (Returns (ErrDataResponse StatusBadRequest
                       (''unknown action: '' @ [CHR 0x27] @ Action qm @ [CHR 0x27])), [])))"

text \<open>\<open>CheckHealth\<close> always returns a nil error; the model returns the result.\<close>

definition CheckHealth :: "Datasource \<Rightarrow> CheckHealthResult \<times> call list" where
  "CheckHealth d =
     (if S3Bucket (settings d) = [] then
        (\<lparr>CheckHealthResult.Status = HealthStatusError, Message = ''S3 Bucket name is missing''\<rparr>, [])
      else if StepFunctionArn (settings d) = [] then
        (\<lparr>CheckHealthResult.Status = HealthStatusError, Message = ''Step Function ARN is missing''\<rparr>, [])
      else
        (case (case sfnClient d of
                 None \<Rightarrow> (Inr [], [])
               | Some client \<Rightarrow>
                   let params = \<lparr>DescribeStateMachineInput.StateMachineArn = StepFunctionArn (settings d)\<rparr>
                   in (case DescribeStateMachine client params of
                         Inl err \<Rightarrow> (Inl err, [SFN_DescribeStateMachine params])
                       | Inr _ \<Rightarrow>
                           (Inr [''Step Function is accessible''], [SFN_DescribeStateMachine params]))) of
           (Inl err, calls) \<Rightarrow>
             (\<lparr>CheckHealthResult.Status = HealthStatusError,
               Message = ''Cannot access Step Function: '' @ err\<rparr>, calls)
         | (Inr messages0, calls) \<Rightarrow>
             let messages = messages0 @ [''S3 Bucket access is not being tested.''];
                 message = (if length messages > 0
                            then ''Data source is working: '' @ strings_Join messages '',''
                            else ''Data source is working'')
             in (\<lparr>CheckHealthResult.Status = HealthStatusOk, Message = message\<rparr>, calls)))"

section \<open>Reading a response\<close>

text \<open>A frame contains a field of a given name.\<close>

definition has_field :: "Frame \<Rightarrow> string \<Rightarrow> bool" where
  "has_field frame name = (name \<in> set (map Field.Name (Fields frame)))"

text \<open>The response that carries one frame and no error, as both handlers build it from
  the zero value.\<close>

definition frame_response :: "Frame \<Rightarrow> DataResponse" where
  "frame_response frame =
     \<lparr>Frames = [frame], DataResponse.Error = None, DataResponse.Status = 0\<rparr>"

text \<open>The execution identifier the status handler asks about.\<close>

definition executionArn_of :: "ARN \<Rightarrow> string \<Rightarrow> string" where
  "executionArn_of arn jobId =
     ''arn:aws:states:'' @ Region arn @ '':'' @ AccountID arn @ '':execution:''
       @ strings_Replace1 (Resource arn) ''stateMachine:'' [] @ '':'' @ jobId"

section \<open>Test doubles\<close>

text \<open>Stand-ins for the injected clients and the packages, after the mocks of the
  repository's tests; the concrete instances of the theorems run on them.\<close>

definition mock_settings :: PluginSettings where
  "mock_settings =
     \<lparr>StepFunctionArn = ''arn:aws:states:us-east-1:123456789012:stateMachine:test-state-machine'',
      S3Bucket = ''test-bucket''\<rparr>"

definition mock_arn :: ARN where
  "mock_arn = \<lparr>Partition = ''aws'', Service = ''states'', Region = ''us-east-1'',
               AccountID = ''123456789012'', Resource = ''stateMachine:test-state-machine''\<rparr>"

definition mock_packages :: packages where
  "mock_packages =
     \<lparr>json_Marshal = (\<lambda>input. Inr (''{jobId:'' @ StepFunctionInput.JobId input
                                      @ '',bucket:'' @ StepFunctionInput.Bucket input @ ''}'')),
      json_Unmarshal = (\<lambda>raw. Inr \<lparr>Action = raw, queryModel.JobId = ''test-job-123'',
                                     queryModel.Extract = Mapping.empty\<rparr>),
      arn_Parse = (\<lambda>s. if s = StepFunctionArn mock_settings then Inr mock_arn
                         else Inl ''arn: invalid prefix'')\<rparr>"

definition mock_sfnClient :: "DescribeExecutionOutput \<Rightarrow> SFNClientInterface" where
  "mock_sfnClient described =
     \<lparr>StartExecution = (\<lambda>params. Inr \<lparr>StartExecutionOutput.ExecutionArn =
                           Some (''execution:'' @ StartExecutionInput.Name params)\<rparr>),
      DescribeExecution = (\<lambda>params.
         if DescribeExecutionInput.ExecutionArn params =
              ''arn:aws:states:us-east-1:123456789012:execution:test-state-machine:test-job-123''
         then Inr described else Inl ''ExecutionDoesNotExist''),
      DescribeStateMachine = (\<lambda>params. Inr ())\<rparr>"

definition mock_running :: DescribeExecutionOutput where
  "mock_running = \<lparr>DescribeExecutionOutput.Status = ''RUNNING'',
                   DescribeExecutionOutput.Error = None, Cause = None\<rparr>"

definition mock_succeeded :: DescribeExecutionOutput where
  "mock_succeeded = \<lparr>DescribeExecutionOutput.Status = ''SUCCEEDED'',
                     DescribeExecutionOutput.Error = None, Cause = None\<rparr>"

definition mock_failed :: DescribeExecutionOutput where
  "mock_failed = \<lparr>DescribeExecutionOutput.Status = ''FAILED'',
                  DescribeExecutionOutput.Error = Some ''States.TaskFailed'',
                  Cause = Some ''Network timeout''\<rparr>"

definition mock_presigner :: S3PresignerInterface where
  "mock_presigner params optFns =
     Inr \<lparr>URL = ''https://'' @ GetObjectInput.Bucket params @ ''/'' @ Key params @ ''?presigned=true'',
          Method = ''GET''\<rparr>"

definition failing_presigner :: S3PresignerInterface where
  "failing_presigner params optFns = Inl ''no credentials''"

definition mock_datasource ::
  "DescribeExecutionOutput \<Rightarrow> S3PresignerInterface option \<Rightarrow> Datasource" where
  "mock_datasource described presigner =
     \<lparr>settings = mock_settings, sfnClient = Some (mock_sfnClient described),
      s3Presigner = presigner\<rparr>"

definition mock_request :: queryModel where
  "mock_request = \<lparr>Action = ''request'', queryModel.JobId = ''test-job-123'',
                   queryModel.Extract = Mapping.update ''file1.pcap'' [1, 2, 3] Mapping.empty\<rparr>"

definition mock_status :: queryModel where
  "mock_status = \<lparr>Action = ''status'', queryModel.JobId = ''test-job-123'',
                  queryModel.Extract = Mapping.empty\<rparr>"

section \<open>Auxiliary facts\<close>

lemma strings_Contains_infix: "strings_Contains (p @ s @ q) s"
proof (induction p)
  case Nil
  show ?case
  proof (cases "s @ q")
    case Nil
    then show ?thesis by simp
  next
    case (Cons a list)
    have "take (length s) (s @ q) = s" by simp
    with Cons show ?thesis by simp
  qed
next
  case (Cons a p)
  then show ?case by simp
qed

text \<open>The frame of the status handler once describe-execution has answered: the status
  field, then the conditional fields in the order the handler appends them.\<close>

lemma handleStatusAction_described:
  assumes "queryModel.JobId qm \<noteq> []"
      and "arn_Parse L (StepFunctionArn (settings d)) = Inr arn"
      and "sfnClient d = Some client"
      and "DescribeExecution client
             \<lparr>DescribeExecutionInput.ExecutionArn = executionArn_of arn (queryModel.JobId qm)\<rparr>
           = Inr result"
  shows "fst (handleStatusAction L d qm) =
           Returns (frame_response \<lparr>Frame.Name = ''step_function_status'', Fields =
             [NewField ''status'' [DescribeExecutionOutput.Status result]]
             @ (if DescribeExecutionOutput.Status result = ''FAILED''
                then (case DescribeExecutionOutput.Error result of
                        None \<Rightarrow> [] | Some e \<Rightarrow> [NewField ''error'' [e]])
                else [])
             @ (case Cause result of None \<Rightarrow> [] | Some c \<Rightarrow> [NewField ''cause'' [c]])
             @ (if DescribeExecutionOutput.Status result = ''SUCCEEDED''
                then (case fst (generatePresignedURL d (S3Bucket (settings d))
                                  (queryModel.JobId qm @ ''.pcapng'')) of
                        Inl err \<Rightarrow> [] | Inr url \<Rightarrow> [NewField ''download_url'' [url]])
                else [])\<rparr>)"
  using assms
  by (simp add: handleStatusAction_def executionArn_of_def frame_response_def NewFrame_def
        Let_def split: sum.split option.split prod.split)

lemma mock_executionArn:
  "executionArn_of mock_arn ''test-job-123'' =
     ''arn:aws:states:us-east-1:123456789012:execution:test-state-machine:test-job-123''"
  by (simp add: executionArn_of_def mock_arn_def)

lemma mock_described:
  "DescribeExecution (mock_sfnClient described)
     \<lparr>DescribeExecutionInput.ExecutionArn = executionArn_of mock_arn (queryModel.JobId mock_status)\<rparr>
   = Inr described"
  by (simp add: mock_sfnClient_def mock_status_def mock_executionArn)

lemma mock_parsed:
  "arn_Parse mock_packages (StepFunctionArn (settings (mock_datasource described presigner)))
   = Inr mock_arn"
  by (simp add: mock_packages_def mock_datasource_def)

lemma mock_client:
  "sfnClient (mock_datasource described presigner) = Some (mock_sfnClient described)"
  by (simp add: mock_datasource_def)

lemma mock_status_JobId: "queryModel.JobId mock_status \<noteq> []"
  by (simp add: mock_status_def)

section \<open>The status handler on a succeeded execution\<close>

text \<open>
  Claim C1, as the code has it. For a status query whose describe-execution result has
  status SUCCEEDED, the handler returns one frame that contains a \<open>download_url\<close> field
  exactly when presigned-URL generation succeeds and never an \<open>error\<close> field, whatever
  error string the engine returned; it contains a \<open>cause\<close> field exactly when the engine
  returned a cause string.
\<close>

theorem succeeded_fields:
  assumes "queryModel.JobId qm \<noteq> []"
      and "arn_Parse L (StepFunctionArn (settings d)) = Inr arn"
      and "sfnClient d = Some client"
      and "DescribeExecution client
             \<lparr>DescribeExecutionInput.ExecutionArn = executionArn_of arn (queryModel.JobId qm)\<rparr>
           = Inr result"
      and "DescribeExecutionOutput.Status result = ''SUCCEEDED''"
  shows "\<exists>frame. fst (handleStatusAction L d qm) = Returns (frame_response frame)
           \<and> (has_field frame ''download_url'' \<longleftrightarrow>
                (\<exists>url. fst (generatePresignedURL d (S3Bucket (settings d))
                               (queryModel.JobId qm @ ''.pcapng'')) = Inr url))
           \<and> \<not> has_field frame ''error''
           \<and> (has_field frame ''cause'' \<longleftrightarrow> Cause result \<noteq> None)"
proof -
  let ?presigned = "fst (generatePresignedURL d (S3Bucket (settings d))
                           (queryModel.JobId qm @ ''.pcapng''))"
  let ?frame = "\<lparr>Frame.Name = ''step_function_status'', Fields =
                  [NewField ''status'' [''SUCCEEDED'']]
                  @ (case Cause result of None \<Rightarrow> [] | Some c \<Rightarrow> [NewField ''cause'' [c]])
                  @ (case ?presigned of Inl err \<Rightarrow> [] | Inr url \<Rightarrow> [NewField ''download_url'' [url]])\<rparr>"
  have returned: "fst (handleStatusAction L d qm) = Returns (frame_response ?frame)"
    using handleStatusAction_described [OF assms(1-4)] assms(5) by simp
  have download: "has_field ?frame ''download_url'' \<longleftrightarrow> (\<exists>url. ?presigned = Inr url)"
    by (cases "Cause result"; cases ?presigned) (simp_all add: has_field_def NewField_def)
  have no_error: "\<not> has_field ?frame ''error''"
    by (cases "Cause result"; cases ?presigned) (simp_all add: has_field_def NewField_def)
  have cause: "has_field ?frame ''cause'' \<longleftrightarrow> Cause result \<noteq> None"
    by (cases "Cause result"; cases ?presigned) (simp_all add: has_field_def NewField_def)
  from returned download no_error cause show ?thesis
    by blast
qed

text \<open>The theorem at the succeeded execution of the test doubles, with a presigner that
  answers: the frame is status and \<open>download_url\<close>.\<close>

theorem succeeded_fields_witness:
  "queryModel.JobId mock_status \<noteq> []
   \<and> arn_Parse mock_packages
        (StepFunctionArn (settings (mock_datasource mock_succeeded (Some mock_presigner))))
      = Inr mock_arn
   \<and> sfnClient (mock_datasource mock_succeeded (Some mock_presigner))
      = Some (mock_sfnClient mock_succeeded)
   \<and> DescribeExecution (mock_sfnClient mock_succeeded)
        \<lparr>DescribeExecutionInput.ExecutionArn =
           executionArn_of mock_arn (queryModel.JobId mock_status)\<rparr> = Inr mock_succeeded
   \<and> DescribeExecutionOutput.Status mock_succeeded = ''SUCCEEDED''
   \<and> (\<exists>frame. fst (handleStatusAction mock_packages
                     (mock_datasource mock_succeeded (Some mock_presigner)) mock_status)
                = Returns (frame_response frame)
          \<and> has_field frame ''download_url''
          \<and> \<not> has_field frame ''error''
          \<and> \<not> has_field frame ''cause'')"
proof -
  have status: "DescribeExecutionOutput.Status mock_succeeded = ''SUCCEEDED''"
    by (simp add: mock_succeeded_def)
  have presigned: "\<exists>url. fst (generatePresignedURL (mock_datasource mock_succeeded (Some mock_presigner))
       (S3Bucket (settings (mock_datasource mock_succeeded (Some mock_presigner))))
       (queryModel.JobId mock_status @ ''.pcapng'')) = Inr url"
    by (simp add: generatePresignedURL_def mock_datasource_def mock_presigner_def)
  have no_cause: "Cause mock_succeeded = None"
    by (simp add: mock_succeeded_def)
  note jobId = mock_status_JobId
  note parsed = mock_parsed [of mock_succeeded "Some mock_presigner"]
  note client = mock_client [of mock_succeeded "Some mock_presigner"]
  note described = mock_described [of mock_succeeded]
  from succeeded_fields [OF jobId parsed client described status] presigned no_cause
  have "\<exists>frame. fst (handleStatusAction mock_packages
                     (mock_datasource mock_succeeded (Some mock_presigner)) mock_status)
                = Returns (frame_response frame)
          \<and> has_field frame ''download_url''
          \<and> \<not> has_field frame ''error''
          \<and> \<not> has_field frame ''cause''"
    by simp
  with jobId parsed client described status show ?thesis
    by simp
qed

text \<open>Claim C1 as stated fails: when the engine returns a cause string with a succeeded
  execution, the frame has a \<open>cause\<close> field between status and \<open>download_url\<close>.\<close>

theorem succeeded_cause_counterexample:
  "fst (handleStatusAction mock_packages
          (mock_datasource (mock_succeeded\<lparr>Cause := Some ''done''\<rparr>) (Some mock_presigner))
          mock_status)
   = Returns (frame_response \<lparr>Frame.Name = ''step_function_status'', Fields =
       [\<lparr>Field.Name = ''status'', Values = [''SUCCEEDED'']\<rparr>,
        \<lparr>Field.Name = ''cause'', Values = [''done'']\<rparr>,
        \<lparr>Field.Name = ''download_url'',
          Values = [''https://test-bucket/test-job-123.pcapng?presigned=true'']\<rparr>]\<rparr>)
   \<and> has_field \<lparr>Frame.Name = ''step_function_status'', Fields =
       [\<lparr>Field.Name = ''status'', Values = [''SUCCEEDED'']\<rparr>,
        \<lparr>Field.Name = ''cause'', Values = [''done'']\<rparr>,
        \<lparr>Field.Name = ''download_url'',
          Values = [''https://test-bucket/test-job-123.pcapng?presigned=true'']\<rparr>]\<rparr> ''cause''"
proof -
  have "fst (handleStatusAction mock_packages
          (mock_datasource (mock_succeeded\<lparr>Cause := Some ''done''\<rparr>) (Some mock_presigner))
          mock_status)
   = Returns (frame_response \<lparr>Frame.Name = ''step_function_status'', Fields =
       [\<lparr>Field.Name = ''status'', Values = [''SUCCEEDED'']\<rparr>,
        \<lparr>Field.Name = ''cause'', Values = [''done'']\<rparr>,
        \<lparr>Field.Name = ''download_url'',
          Values = [''https://test-bucket/test-job-123.pcapng?presigned=true'']\<rparr>]\<rparr>)"
    using handleStatusAction_described [OF mock_status_JobId mock_parsed mock_client mock_described,
      of "mock_succeeded\<lparr>Cause := Some ''done''\<rparr>" "Some mock_presigner"]
    by (simp add: mock_succeeded_def mock_datasource_def mock_settings_def mock_status_def
          mock_presigner_def generatePresignedURL_def NewField_def)
  then show ?thesis
    by (simp add: has_field_def)
qed

text \<open>
  Claim C2. For a status query whose describe-execution result has status SUCCEEDED
  while presigned-URL generation returns an error, the handler still returns a response
  without an error; its one frame starts with the status field and has no
  \<open>download_url\<close> field.
\<close>

theorem presign_failure_not_surfaced:
  assumes "queryModel.JobId qm \<noteq> []"
      and "arn_Parse L (StepFunctionArn (settings d)) = Inr arn"
      and "sfnClient d = Some client"
      and "DescribeExecution client
             \<lparr>DescribeExecutionInput.ExecutionArn = executionArn_of arn (queryModel.JobId qm)\<rparr>
           = Inr result"
      and "DescribeExecutionOutput.Status result = ''SUCCEEDED''"
      and "fst (generatePresignedURL d (S3Bucket (settings d)) (queryModel.JobId qm @ ''.pcapng''))
           = Inl err"
  shows "\<exists>frame. fst (handleStatusAction L d qm) =
             Returns \<lparr>Frames = [frame], DataResponse.Error = None, DataResponse.Status = 0\<rparr>
           \<and> hd (Fields frame) = \<lparr>Field.Name = ''status'', Values = [''SUCCEEDED'']\<rparr>
           \<and> has_field frame ''status''
           \<and> \<not> has_field frame ''download_url''"
proof -
  let ?frame = "\<lparr>Frame.Name = ''step_function_status'', Fields =
                  [NewField ''status'' [''SUCCEEDED'']]
                  @ (case Cause result of None \<Rightarrow> [] | Some c \<Rightarrow> [NewField ''cause'' [c]])\<rparr>"
  have returned: "fst (handleStatusAction L d qm) =
      Returns \<lparr>Frames = [?frame], DataResponse.Error = None, DataResponse.Status = 0\<rparr>"
    using handleStatusAction_described [OF assms(1-4)] assms(5,6)
    by (simp add: frame_response_def)
  have first: "hd (Fields ?frame) = \<lparr>Field.Name = ''status'', Values = [''SUCCEEDED'']\<rparr>"
    by (simp add: NewField_def)
  have status: "has_field ?frame ''status''"
    by (simp add: has_field_def NewField_def)
  have no_download: "\<not> has_field ?frame ''download_url''"
    by (cases "Cause result") (simp_all add: has_field_def NewField_def)
  from returned first status no_download show ?thesis
    by blast
qed

text \<open>The theorem at a succeeded execution with a presigner that fails, and with none.\<close>

theorem presign_failure_not_surfaced_witness:
  "queryModel.JobId mock_status \<noteq> []
   \<and> arn_Parse mock_packages
        (StepFunctionArn (settings (mock_datasource mock_succeeded (Some failing_presigner))))
      = Inr mock_arn
   \<and> sfnClient (mock_datasource mock_succeeded (Some failing_presigner))
      = Some (mock_sfnClient mock_succeeded)
   \<and> DescribeExecution (mock_sfnClient mock_succeeded)
        \<lparr>DescribeExecutionInput.ExecutionArn =
           executionArn_of mock_arn (queryModel.JobId mock_status)\<rparr> = Inr mock_succeeded
   \<and> DescribeExecutionOutput.Status mock_succeeded = ''SUCCEEDED''
   \<and> fst (generatePresignedURL (mock_datasource mock_succeeded (Some failing_presigner))
        (S3Bucket (settings (mock_datasource mock_succeeded (Some failing_presigner))))
        (queryModel.JobId mock_status @ ''.pcapng''))
      = Inl ''failed to generate presigned URL: no credentials''
   \<and> (\<exists>frame. fst (handleStatusAction mock_packages
                     (mock_datasource mock_succeeded (Some failing_presigner)) mock_status)
                = Returns \<lparr>Frames = [frame], DataResponse.Error = None, DataResponse.Status = 0\<rparr>
          \<and> hd (Fields frame) = \<lparr>Field.Name = ''status'', Values = [''SUCCEEDED'']\<rparr>
          \<and> has_field frame ''status''
          \<and> \<not> has_field frame ''download_url'')"
proof -
  have status: "DescribeExecutionOutput.Status mock_succeeded = ''SUCCEEDED''"
    by (simp add: mock_succeeded_def)
  have failed: "fst (generatePresignedURL (mock_datasource mock_succeeded (Some failing_presigner))
        (S3Bucket (settings (mock_datasource mock_succeeded (Some failing_presigner))))
        (queryModel.JobId mock_status @ ''.pcapng''))
      = Inl ''failed to generate presigned URL: no credentials''"
    by (simp add: generatePresignedURL_def mock_datasource_def failing_presigner_def)
  note jobId = mock_status_JobId
  note parsed = mock_parsed [of mock_succeeded "Some failing_presigner"]
  note client = mock_client [of mock_succeeded "Some failing_presigner"]
  note described = mock_described [of mock_succeeded]
  from presign_failure_not_surfaced [OF jobId parsed client described status failed]
    jobId parsed client described status failed
  show ?thesis
    by simp
qed

section \<open>Blank job ids\<close>

text \<open>
  Claim C3, as the code has it. For a query with a blank job id the status handler
  returns the bad-request error \<open>JobId is required for status action\<close>, and the request
  handler returns the bad-request error \<open>JobId is required for request action\<close> for
  every non-empty Extract map; both messages name the JobId field. For an empty Extract
  map the request handler returns \<open>Extract parameter is required for request action\<close>
  instead, since it checks the map first. No event is caused on either path.
\<close>

theorem blank_JobId:
  assumes "queryModel.JobId qm = []"
  shows "handleStatusAction L d qm =
           (Returns (ErrDataResponse StatusBadRequest ''JobId is required for status action''), [])
       \<and> strings_Contains ''JobId is required for status action'' ''JobId''
       \<and> handleRequestAction L d qm =
           (if Mapping.is_empty (queryModel.Extract qm)
            then (Returns (ErrDataResponse StatusBadRequest
                    ''Extract parameter is required for request action''), [])
            else (Returns (ErrDataResponse StatusBadRequest
                    ''JobId is required for request action''), []))
       \<and> strings_Contains ''JobId is required for request action'' ''JobId''"
  using assms by (simp add: handleStatusAction_def handleRequestAction_def)

text \<open>The theorem at a request with one file to extract and a blank job id.\<close>

theorem blank_JobId_witness:
  "queryModel.JobId (mock_request\<lparr>queryModel.JobId := []\<rparr>) = []
   \<and> handleStatusAction mock_packages (mock_datasource mock_running None)
        (mock_request\<lparr>queryModel.JobId := []\<rparr>)
      = (Returns (ErrDataResponse StatusBadRequest ''JobId is required for status action''), [])
   \<and> handleRequestAction mock_packages (mock_datasource mock_running None)
        (mock_request\<lparr>queryModel.JobId := []\<rparr>)
      = (Returns (ErrDataResponse StatusBadRequest ''JobId is required for request action''), [])"
proof -
  have blank: "queryModel.JobId (mock_request\<lparr>queryModel.JobId := []\<rparr>) = []"
    by simp
  have nonempty: "\<not> Mapping.is_empty (queryModel.Extract (mock_request\<lparr>queryModel.JobId := []\<rparr>))"
    by (simp add: mock_request_def)
  from blank_JobId [OF blank, of mock_packages "mock_datasource mock_running None"] blank nonempty
  show ?thesis
    by simp
qed

text \<open>Claim C3 as stated fails at the empty Extract map: the message of the request
  handler is about the Extract parameter and does not name JobId.\<close>

theorem blank_JobId_counterexample:
  "fst (handleRequestAction mock_packages (mock_datasource mock_running None)
          \<lparr>Action = ''request'', queryModel.JobId = [], queryModel.Extract = Mapping.empty\<rparr>)
   = Returns (ErrDataResponse StatusBadRequest ''Extract parameter is required for request action'')
   \<and> \<not> strings_Contains ''Extract parameter is required for request action'' ''JobId''"
  by (simp add: handleRequestAction_def)

section \<open>The request handler\<close>

text \<open>
  Claim C4. For a request query with a non-blank job id and a non-empty extraction map,
  if the start-execution call succeeds (the input serialised, the client returned no
  error and an output that carries the execution ARN), the response has no error and
  exactly one frame, with exactly two fields: \<open>status\<close> holding the single value
  \<open>RUNNING\<close>, then \<open>job_id\<close> holding the job id of the query.
\<close>

theorem handleRequestAction_running:
  assumes "queryModel.JobId qm \<noteq> []"
      and "\<not> Mapping.is_empty (queryModel.Extract qm)"
      and "json_Marshal L \<lparr>StepFunctionInput.JobId = queryModel.JobId qm,
              StepFunctionInput.Bucket = S3Bucket (settings d),
              StepFunctionInput.Extract = queryModel.Extract qm\<rparr> = Inr inputStr"
      and "sfnClient d = Some client"
      and "StartExecution client \<lparr>StartExecutionInput.Name = queryModel.JobId qm,
              StartExecutionInput.StateMachineArn = StepFunctionArn (settings d),
              Input = inputStr\<rparr> = Inr result"
      and "StartExecutionOutput.ExecutionArn result = Some executionArn"
  shows "fst (handleRequestAction L d qm) =
           Returns \<lparr>Frames = [\<lparr>Frame.Name = ''step_function_request'',
                                Fields = [\<lparr>Field.Name = ''status'', Values = [''RUNNING'']\<rparr>,
                                          \<lparr>Field.Name = ''job_id'', Values = [queryModel.JobId qm]\<rparr>]\<rparr>],
                     DataResponse.Error = None, DataResponse.Status = 0\<rparr>"
  using assms
  by (simp add: handleRequestAction_def executeStepFunction_def NewFrame_def NewField_def)

text \<open>The theorem at the request of the test doubles.\<close>

theorem handleRequestAction_running_witness:
  "queryModel.JobId mock_request \<noteq> []
   \<and> \<not> Mapping.is_empty (queryModel.Extract mock_request)
   \<and> json_Marshal mock_packages \<lparr>StepFunctionInput.JobId = queryModel.JobId mock_request,
        StepFunctionInput.Bucket = S3Bucket (settings (mock_datasource mock_running None)),
        StepFunctionInput.Extract = queryModel.Extract mock_request\<rparr>
      = Inr ''{jobId:test-job-123,bucket:test-bucket}''
   \<and> sfnClient (mock_datasource mock_running None) = Some (mock_sfnClient mock_running)
   \<and> StartExecution (mock_sfnClient mock_running)
        \<lparr>StartExecutionInput.Name = queryModel.JobId mock_request,
         StartExecutionInput.StateMachineArn =
           StepFunctionArn (settings (mock_datasource mock_running None)),
         Input = ''{jobId:test-job-123,bucket:test-bucket}''\<rparr>
      = Inr \<lparr>StartExecutionOutput.ExecutionArn = Some ''execution:test-job-123''\<rparr>
   \<and> fst (handleRequestAction mock_packages (mock_datasource mock_running None) mock_request) =
        Returns \<lparr>Frames = [\<lparr>Frame.Name = ''step_function_request'',
                             Fields = [\<lparr>Field.Name = ''status'', Values = [''RUNNING'']\<rparr>,
                                       \<lparr>Field.Name = ''job_id'', Values = [''test-job-123'']\<rparr>]\<rparr>],
                  DataResponse.Error = None, DataResponse.Status = 0\<rparr>"
proof -
  have jobId: "queryModel.JobId mock_request \<noteq> []"
    by (simp add: mock_request_def)
  have nonempty: "\<not> Mapping.is_empty (queryModel.Extract mock_request)"
    by (simp add: mock_request_def)
  have marshalled: "json_Marshal mock_packages
        \<lparr>StepFunctionInput.JobId = queryModel.JobId mock_request,
         StepFunctionInput.Bucket = S3Bucket (settings (mock_datasource mock_running None)),
         StepFunctionInput.Extract = queryModel.Extract mock_request\<rparr>
      = Inr ''{jobId:test-job-123,bucket:test-bucket}''"
    by (simp add: mock_packages_def mock_request_def mock_datasource_def mock_settings_def)
  note client = mock_client [of mock_running None]
  have started: "StartExecution (mock_sfnClient mock_running)
        \<lparr>StartExecutionInput.Name = queryModel.JobId mock_request,
         StartExecutionInput.StateMachineArn =
           StepFunctionArn (settings (mock_datasource mock_running None)),
         Input = ''{jobId:test-job-123,bucket:test-bucket}''\<rparr>
      = Inr \<lparr>StartExecutionOutput.ExecutionArn = Some ''execution:test-job-123''\<rparr>"
    by (simp add: mock_sfnClient_def mock_request_def)
  have arn: "StartExecutionOutput.ExecutionArn
               \<lparr>StartExecutionOutput.ExecutionArn = Some ''execution:test-job-123''\<rparr>
             = Some ''execution:test-job-123''"
    by simp
  have name: "queryModel.JobId mock_request = ''test-job-123''"
    by (simp add: mock_request_def)
  from handleRequestAction_running [OF jobId nonempty marshalled client started arn]
  have "fst (handleRequestAction mock_packages (mock_datasource mock_running None) mock_request) =
        Returns \<lparr>Frames = [\<lparr>Frame.Name = ''step_function_request'',
                             Fields = [\<lparr>Field.Name = ''status'', Values = [''RUNNING'']\<rparr>,
                                       \<lparr>Field.Name = ''job_id'', Values = [''test-job-123'']\<rparr>]\<rparr>],
                  DataResponse.Error = None, DataResponse.Status = 0\<rparr>"
    by (simp only: name)
  with jobId nonempty marshalled client started show ?thesis
    by (intro conjI)
qed

text \<open>
  Claim C8. For a request query with a non-blank job id and a non-empty extraction map,
  on a datasource that has a workflow client, the handler invokes start-execution exactly
  once and nothing else: the execution name is the job id, the state machine ARN is the
  configured Step Function ARN, and the input is the JSON serialisation of the object of
  the query's job id, the configured bucket and the query's extraction map.
\<close>

theorem handleRequestAction_starts_once:
  assumes "queryModel.JobId qm \<noteq> []"
      and "\<not> Mapping.is_empty (queryModel.Extract qm)"
      and "json_Marshal L \<lparr>StepFunctionInput.JobId = queryModel.JobId qm,
              StepFunctionInput.Bucket = S3Bucket (settings d),
              StepFunctionInput.Extract = queryModel.Extract qm\<rparr> = Inr inputStr"
      and "sfnClient d = Some client"
  shows "filter is_StartExecution (snd (handleRequestAction L d qm)) =
           [SFN_StartExecution \<lparr>StartExecutionInput.Name = queryModel.JobId qm,
              StartExecutionInput.StateMachineArn = StepFunctionArn (settings d),
              Input = inputStr\<rparr>]
       \<and> external_calls (snd (handleRequestAction L d qm)) =
           [SFN_StartExecution \<lparr>StartExecutionInput.Name = queryModel.JobId qm,
              StartExecutionInput.StateMachineArn = StepFunctionArn (settings d),
              Input = inputStr\<rparr>]"
  using assms
  by (simp add: handleRequestAction_def executeStepFunction_def external_calls_def Let_def
           split: sum.split option.split)

text \<open>The theorem at the request of the test doubles.\<close>

theorem handleRequestAction_starts_once_witness:
  "queryModel.JobId mock_request \<noteq> []
   \<and> \<not> Mapping.is_empty (queryModel.Extract mock_request)
   \<and> json_Marshal mock_packages \<lparr>StepFunctionInput.JobId = queryModel.JobId mock_request,
        StepFunctionInput.Bucket = S3Bucket (settings (mock_datasource mock_running None)),
        StepFunctionInput.Extract = queryModel.Extract mock_request\<rparr>
      = Inr ''{jobId:test-job-123,bucket:test-bucket}''
   \<and> sfnClient (mock_datasource mock_running None) = Some (mock_sfnClient mock_running)
   \<and> filter is_StartExecution
        (snd (handleRequestAction mock_packages (mock_datasource mock_running None) mock_request))
      = [SFN_StartExecution \<lparr>StartExecutionInput.Name = ''test-job-123'',
           StartExecutionInput.StateMachineArn =
             ''arn:aws:states:us-east-1:123456789012:stateMachine:test-state-machine'',
           Input = ''{jobId:test-job-123,bucket:test-bucket}''\<rparr>]
   \<and> external_calls
        (snd (handleRequestAction mock_packages (mock_datasource mock_running None) mock_request))
      = [SFN_StartExecution \<lparr>StartExecutionInput.Name = ''test-job-123'',
           StartExecutionInput.StateMachineArn =
             ''arn:aws:states:us-east-1:123456789012:stateMachine:test-state-machine'',
           Input = ''{jobId:test-job-123,bucket:test-bucket}''\<rparr>]"
proof -
  have jobId: "queryModel.JobId mock_request \<noteq> []"
    by (simp add: mock_request_def)
  have nonempty: "\<not> Mapping.is_empty (queryModel.Extract mock_request)"
    by (simp add: mock_request_def)
  have marshalled: "json_Marshal mock_packages
        \<lparr>StepFunctionInput.JobId = queryModel.JobId mock_request,
         StepFunctionInput.Bucket = S3Bucket (settings (mock_datasource mock_running None)),
         StepFunctionInput.Extract = queryModel.Extract mock_request\<rparr>
      = Inr ''{jobId:test-job-123,bucket:test-bucket}''"
    by (simp add: mock_packages_def mock_request_def mock_datasource_def mock_settings_def)
  note client = mock_client [of mock_running None]
  have name: "queryModel.JobId mock_request = ''test-job-123''"
    by (simp add: mock_request_def)
  have configured: "StepFunctionArn (settings (mock_datasource mock_running None)) =
      ''arn:aws:states:us-east-1:123456789012:stateMachine:test-state-machine''"
    by (simp add: mock_datasource_def mock_settings_def)
  from handleRequestAction_starts_once [OF jobId nonempty marshalled client]
  have "filter is_StartExecution
        (snd (handleRequestAction mock_packages (mock_datasource mock_running None) mock_request))
      = [SFN_StartExecution \<lparr>StartExecutionInput.Name = ''test-job-123'',
           StartExecutionInput.StateMachineArn =
             ''arn:aws:states:us-east-1:123456789012:stateMachine:test-state-machine'',
           Input = ''{jobId:test-job-123,bucket:test-bucket}''\<rparr>]
   \<and> external_calls
        (snd (handleRequestAction mock_packages (mock_datasource mock_running None) mock_request))
      = [SFN_StartExecution \<lparr>StartExecutionInput.Name = ''test-job-123'',
           StartExecutionInput.StateMachineArn =
             ''arn:aws:states:us-east-1:123456789012:stateMachine:test-state-machine'',
           Input = ''{jobId:test-job-123,bucket:test-bucket}''\<rparr>]"
    by (simp only: name configured)
  with jobId nonempty marshalled client show ?thesis
    by (intro conjI) simp_all
qed

section \<open>The status handler: failed executions, malformed ARNs, the presign request\<close>

text \<open>
  Claim C5. For a status query whose describe-execution result has status FAILED with
  both the error string and the cause string present, the frame has exactly the fields
  \<open>status\<close>, \<open>error\<close>, \<open>cause\<close>, in this order, each holding the value of the engine's
  result.
\<close>

theorem failed_fields_in_order:
  assumes "queryModel.JobId qm \<noteq> []"
      and "arn_Parse L (StepFunctionArn (settings d)) = Inr arn"
      and "sfnClient d = Some client"
      and "DescribeExecution client
             \<lparr>DescribeExecutionInput.ExecutionArn = executionArn_of arn (queryModel.JobId qm)\<rparr>
           = Inr result"
      and "DescribeExecutionOutput.Status result = ''FAILED''"
      and "DescribeExecutionOutput.Error result = Some e"
      and "Cause result = Some c"
  shows "fst (handleStatusAction L d qm) =
           Returns \<lparr>Frames = [\<lparr>Frame.Name = ''step_function_status'', Fields =
                       [\<lparr>Field.Name = ''status'', Values = [''FAILED'']\<rparr>,
                        \<lparr>Field.Name = ''error'', Values = [e]\<rparr>,
                        \<lparr>Field.Name = ''cause'', Values = [c]\<rparr>]\<rparr>],
                     DataResponse.Error = None, DataResponse.Status = 0\<rparr>"
  using handleStatusAction_described [OF assms(1-4)] assms(5-7)
  by (simp add: NewField_def frame_response_def)

text \<open>The theorem at the failed execution of the test doubles.\<close>

theorem failed_fields_in_order_witness:
  "queryModel.JobId mock_status \<noteq> []
   \<and> arn_Parse mock_packages
        (StepFunctionArn (settings (mock_datasource mock_failed None))) = Inr mock_arn
   \<and> sfnClient (mock_datasource mock_failed None) = Some (mock_sfnClient mock_failed)
   \<and> DescribeExecution (mock_sfnClient mock_failed)
        \<lparr>DescribeExecutionInput.ExecutionArn =
           executionArn_of mock_arn (queryModel.JobId mock_status)\<rparr> = Inr mock_failed
   \<and> DescribeExecutionOutput.Status mock_failed = ''FAILED''
   \<and> DescribeExecutionOutput.Error mock_failed = Some ''States.TaskFailed''
   \<and> Cause mock_failed = Some ''Network timeout''
   \<and> fst (handleStatusAction mock_packages (mock_datasource mock_failed None) mock_status) =
        Returns \<lparr>Frames = [\<lparr>Frame.Name = ''step_function_status'', Fields =
                    [\<lparr>Field.Name = ''status'', Values = [''FAILED'']\<rparr>,
                     \<lparr>Field.Name = ''error'', Values = [''States.TaskFailed'']\<rparr>,
                     \<lparr>Field.Name = ''cause'', Values = [''Network timeout'']\<rparr>]\<rparr>],
                  DataResponse.Error = None, DataResponse.Status = 0\<rparr>"
proof -
  note jobId = mock_status_JobId
  note parsed = mock_parsed [of mock_failed None]
  note client = mock_client [of mock_failed None]
  note described = mock_described [of mock_failed]
  have status: "DescribeExecutionOutput.Status mock_failed = ''FAILED''"
    by (simp add: mock_failed_def)
  have error: "DescribeExecutionOutput.Error mock_failed = Some ''States.TaskFailed''"
    by (simp add: mock_failed_def)
  have cause: "Cause mock_failed = Some ''Network timeout''"
    by (simp add: mock_failed_def)
  from failed_fields_in_order [OF jobId parsed client described status error cause]
    jobId parsed client described status error cause
  show ?thesis
    by (intro conjI)
qed

text \<open>
  Claim C6. For a status query with a non-blank job id, if the configured Step Function
  ARN fails to parse, the handler returns a bad-request error and no describe-execution
  call is made: no operation of an external client is among its events.
\<close>

theorem handleStatusAction_malformed_arn:
  assumes "queryModel.JobId qm \<noteq> []"
      and "arn_Parse L (StepFunctionArn (settings d)) = Inl err"
  shows "fst (handleStatusAction L d qm) =
           Returns (ErrDataResponse StatusBadRequest (''Failed to parse Step Function ARN: '' @ err))
       \<and> filter is_DescribeExecution (snd (handleStatusAction L d qm)) = []
       \<and> external_calls (snd (handleStatusAction L d qm)) = []"
  using assms by (simp add: handleStatusAction_def external_calls_def)

text \<open>The theorem at the setting \<open>invalid-arn\<close> of the repository's tests.\<close>

theorem handleStatusAction_malformed_arn_witness:
  "queryModel.JobId mock_status \<noteq> []
   \<and> arn_Parse mock_packages
        (StepFunctionArn (settings
           \<lparr>settings = \<lparr>StepFunctionArn = ''invalid-arn'', S3Bucket = ''test-bucket''\<rparr>,
            sfnClient = Some (mock_sfnClient mock_running), s3Presigner = None\<rparr>))
      = Inl ''arn: invalid prefix''
   \<and> fst (handleStatusAction mock_packages
        \<lparr>settings = \<lparr>StepFunctionArn = ''invalid-arn'', S3Bucket = ''test-bucket''\<rparr>,
         sfnClient = Some (mock_sfnClient mock_running), s3Presigner = None\<rparr> mock_status)
      = Returns (ErrDataResponse StatusBadRequest
          ''Failed to parse Step Function ARN: arn: invalid prefix'')
   \<and> filter is_DescribeExecution (snd (handleStatusAction mock_packages
        \<lparr>settings = \<lparr>StepFunctionArn = ''invalid-arn'', S3Bucket = ''test-bucket''\<rparr>,
         sfnClient = Some (mock_sfnClient mock_running), s3Presigner = None\<rparr> mock_status)) = []
   \<and> external_calls (snd (handleStatusAction mock_packages
        \<lparr>settings = \<lparr>StepFunctionArn = ''invalid-arn'', S3Bucket = ''test-bucket''\<rparr>,
         sfnClient = Some (mock_sfnClient mock_running), s3Presigner = None\<rparr> mock_status)) = []"
proof -
  have malformed: "arn_Parse mock_packages
        (StepFunctionArn (settings
           \<lparr>settings = \<lparr>StepFunctionArn = ''invalid-arn'', S3Bucket = ''test-bucket''\<rparr>,
            sfnClient = Some (mock_sfnClient mock_running), s3Presigner = None\<rparr>))
      = Inl ''arn: invalid prefix''"
    by (simp add: mock_packages_def mock_settings_def)
  from handleStatusAction_malformed_arn [OF mock_status_JobId malformed]
    mock_status_JobId malformed
  show ?thesis
    by simp
qed

text \<open>
  Claim C9. For a status query whose describe-execution result has status SUCCEEDED,
  the presign-get-object request the handler issues (one, when the datasource has a
  presigner; none otherwise) is for the configured S3 bucket and the key made of the
  query's job id followed by \<open>.pcapng\<close>, with an expiry of one hour, that is
  3600 * 1000000000 nanoseconds.
\<close>

theorem succeeded_presign_request:
  assumes "queryModel.JobId qm \<noteq> []"
      and "arn_Parse L (StepFunctionArn (settings d)) = Inr arn"
      and "sfnClient d = Some client"
      and "DescribeExecution client
             \<lparr>DescribeExecutionInput.ExecutionArn = executionArn_of arn (queryModel.JobId qm)\<rparr>
           = Inr result"
      and "DescribeExecutionOutput.Status result = ''SUCCEEDED''"
  shows "filter is_PresignGetObject (snd (handleStatusAction L d qm)) =
           (case s3Presigner d of
              None \<Rightarrow> []
            | Some presigner \<Rightarrow>
                [S3_PresignGetObject
                   \<lparr>GetObjectInput.Bucket = S3Bucket (settings d),
                    Key = queryModel.JobId qm @ ''.pcapng''\<rparr>
                   \<lparr>Expires = 3600 * 1000000000\<rparr>])"
  using assms
  by (simp add: handleStatusAction_def executionArn_of_def generatePresignedURL_def
        presign_options_def time_Hour_def Let_def split: sum.split option.split)

text \<open>The theorem at the succeeded execution of the test doubles, with a presigner.\<close>

theorem succeeded_presign_request_witness:
  "queryModel.JobId mock_status \<noteq> []
   \<and> arn_Parse mock_packages
        (StepFunctionArn (settings (mock_datasource mock_succeeded (Some mock_presigner))))
      = Inr mock_arn
   \<and> sfnClient (mock_datasource mock_succeeded (Some mock_presigner))
      = Some (mock_sfnClient mock_succeeded)
   \<and> DescribeExecution (mock_sfnClient mock_succeeded)
        \<lparr>DescribeExecutionInput.ExecutionArn =
           executionArn_of mock_arn (queryModel.JobId mock_status)\<rparr> = Inr mock_succeeded
   \<and> DescribeExecutionOutput.Status mock_succeeded = ''SUCCEEDED''
   \<and> filter is_PresignGetObject (snd (handleStatusAction mock_packages
        (mock_datasource mock_succeeded (Some mock_presigner)) mock_status))
      = [S3_PresignGetObject
           \<lparr>GetObjectInput.Bucket = ''test-bucket'', Key = ''test-job-123.pcapng''\<rparr>
           \<lparr>Expires = 3600000000000\<rparr>]"
proof -
  note jobId = mock_status_JobId
  note parsed = mock_parsed [of mock_succeeded "Some mock_presigner"]
  note client = mock_client [of mock_succeeded "Some mock_presigner"]
  note described = mock_described [of mock_succeeded]
  have status: "DescribeExecutionOutput.Status mock_succeeded = ''SUCCEEDED''"
    by (simp add: mock_succeeded_def)
  have presigner: "s3Presigner (mock_datasource mock_succeeded (Some mock_presigner))
                   = Some mock_presigner"
    by (simp add: mock_datasource_def)
  have bucket: "S3Bucket (settings (mock_datasource mock_succeeded (Some mock_presigner)))
                = ''test-bucket''"
    by (simp add: mock_datasource_def mock_settings_def)
  have key: "queryModel.JobId mock_status @ ''.pcapng'' = ''test-job-123.pcapng''"
    by (simp add: mock_status_def)
  from succeeded_presign_request [OF jobId parsed client described status]
  have "filter is_PresignGetObject (snd (handleStatusAction mock_packages
        (mock_datasource mock_succeeded (Some mock_presigner)) mock_status))
      = [S3_PresignGetObject
           \<lparr>GetObjectInput.Bucket = ''test-bucket'', Key = ''test-job-123.pcapng''\<rparr>
           \<lparr>Expires = 3600000000000\<rparr>]"
    by (simp add: presigner bucket key)
  with jobId parsed client described status show ?thesis
    by (intro conjI)
qed

section \<open>The health check\<close>

text \<open>
  Claim C7. For a configuration with a blank S3 bucket name, \<open>CheckHealth\<close> returns a
  result of status error with the message \<open>S3 Bucket name is missing\<close>, whatever the Step
  Function ARN is: the bucket is checked first, and no client is called.
\<close>

theorem CheckHealth_blank_bucket:
  "S3Bucket (settings d) = [] \<Longrightarrow>
   CheckHealth d =
     (\<lparr>CheckHealthResult.Status = HealthStatusError, Message = ''S3 Bucket name is missing''\<rparr>, [])"
  by (simp add: CheckHealth_def)

text \<open>The theorem at a configuration whose bucket and ARN are both blank.\<close>

theorem CheckHealth_blank_bucket_witness:
  "S3Bucket (settings \<lparr>settings = \<lparr>StepFunctionArn = [], S3Bucket = []\<rparr>,
                        sfnClient = Some (mock_sfnClient mock_running), s3Presigner = None\<rparr>) = []
   \<and> StepFunctionArn (settings \<lparr>settings = \<lparr>StepFunctionArn = [], S3Bucket = []\<rparr>,
                        sfnClient = Some (mock_sfnClient mock_running), s3Presigner = None\<rparr>) = []
   \<and> CheckHealth \<lparr>settings = \<lparr>StepFunctionArn = [], S3Bucket = []\<rparr>,
                   sfnClient = Some (mock_sfnClient mock_running), s3Presigner = None\<rparr> =
       (\<lparr>CheckHealthResult.Status = HealthStatusError, Message = ''S3 Bucket name is missing''\<rparr>, [])"
  using CheckHealth_blank_bucket
    [of "\<lparr>settings = \<lparr>StepFunctionArn = [], S3Bucket = []\<rparr>,
          sfnClient = Some (mock_sfnClient mock_running), s3Presigner = None\<rparr>"]
  by simp

section \<open>The query dispatcher\<close>

text \<open>
  Claim C10, as the code has it. For a query whose action is neither \<open>request\<close> nor
  \<open>status\<close> (the empty action included), the dispatcher returns a bad-request error and
  causes no event: no handler runs and no workflow or storage operation is invoked.
  When both plugin settings are configured the message is \<open>unknown action: '<action>'\<close>,
  which contains the action; when a setting is blank the message is the one of the
  settings check, which comes first.
\<close>

theorem unknown_action:
  assumes "json_Unmarshal L (JSON q) = Inr qm"
      and "Action qm \<noteq> ''request''"
      and "Action qm \<noteq> ''status''"
  shows "query L d q =
           (Returns (ErrDataResponse StatusBadRequest
              (if StepFunctionArn (settings d) = [] then
                 ''Incomplete plugin settings: Step Function ARN not configured''
               else if S3Bucket (settings d) = [] then
                 ''Incomplete plugin settings: S3 Bucket name not configured''
               else ''unknown action: '' @ [CHR 0x27] @ Action qm @ [CHR 0x27])), [])
       \<and> strings_Contains (''unknown action: '' @ [CHR 0x27] @ Action qm @ [CHR 0x27]) (Action qm)"
proof -
  have "strings_Contains ((''unknown action: '' @ [CHR 0x27]) @ Action qm @ [CHR 0x27]) (Action qm)"
    by (rule strings_Contains_infix)
  then show ?thesis
    using assms by (simp add: query_def validateSettings_def)
qed

text \<open>The theorem at the action \<open>foo\<close> on the configured datasource of the test doubles.\<close>

theorem unknown_action_witness:
  "json_Unmarshal mock_packages (JSON \<lparr>RefID = ''A'', JSON = ''foo''\<rparr>) =
     Inr \<lparr>Action = ''foo'', queryModel.JobId = ''test-job-123'', queryModel.Extract = Mapping.empty\<rparr>
   \<and> Action \<lparr>Action = ''foo'', queryModel.JobId = ''test-job-123'',
              queryModel.Extract = Mapping.empty\<rparr> \<noteq> ''request''
   \<and> Action \<lparr>Action = ''foo'', queryModel.JobId = ''test-job-123'',
              queryModel.Extract = Mapping.empty\<rparr> \<noteq> ''status''
   \<and> query mock_packages (mock_datasource mock_running None) \<lparr>RefID = ''A'', JSON = ''foo''\<rparr> =
       (Returns (ErrDataResponse StatusBadRequest (''unknown action: '' @ [CHR 0x27] @ ''foo'' @ [CHR 0x27])), [])
   \<and> strings_Contains (''unknown action: '' @ [CHR 0x27] @ ''foo'' @ [CHR 0x27]) ''foo''"
proof -
  have decoded: "json_Unmarshal mock_packages (JSON \<lparr>RefID = ''A'', JSON = ''foo''\<rparr>) =
     Inr \<lparr>Action = ''foo'', queryModel.JobId = ''test-job-123'', queryModel.Extract = Mapping.empty\<rparr>"
    by (simp add: mock_packages_def)
  have not_request: "Action \<lparr>Action = ''foo'', queryModel.JobId = ''test-job-123'',
              queryModel.Extract = Mapping.empty\<rparr> \<noteq> ''request''"
    by simp
  have not_status: "Action \<lparr>Action = ''foo'', queryModel.JobId = ''test-job-123'',
              queryModel.Extract = Mapping.empty\<rparr> \<noteq> ''status''"
    by simp
  have configured: "StepFunctionArn (settings (mock_datasource mock_running None)) \<noteq> []
                  \<and> S3Bucket (settings (mock_datasource mock_running None)) \<noteq> []"
    by (simp add: mock_datasource_def mock_settings_def)
  from unknown_action [OF decoded not_request not_status, of "mock_datasource mock_running None"]
    configured decoded
  show ?thesis
    by simp
qed

text \<open>Claim C10 as stated fails when a plugin setting is blank: the dispatcher answers
  with the message of the settings check, which does not contain the action.\<close>

theorem unknown_action_counterexample:
  "json_Unmarshal mock_packages (JSON \<lparr>RefID = ''A'', JSON = ''foo''\<rparr>) =
     Inr \<lparr>Action = ''foo'', queryModel.JobId = ''test-job-123'', queryModel.Extract = Mapping.empty\<rparr>
   \<and> query mock_packages
       \<lparr>settings = \<lparr>StepFunctionArn = [], S3Bucket = ''test-bucket''\<rparr>,
        sfnClient = Some (mock_sfnClient mock_running), s3Presigner = None\<rparr>
       \<lparr>RefID = ''A'', JSON = ''foo''\<rparr>
     = (Returns (ErrDataResponse StatusBadRequest
          ''Incomplete plugin settings: Step Function ARN not configured''), [])
   \<and> \<not> strings_Contains ''Incomplete plugin settings: Step Function ARN not configured'' ''foo''"
  by (simp add: query_def validateSettings_def mock_packages_def)

section \<open>The repository's tests, on the model\<close>

text \<open>The expectations of \<open>TestCheckHealth\<close>: an accessible workflow, and a datasource
  without a workflow client.\<close>

lemma CheckHealth_accessible:
  "CheckHealth (mock_datasource mock_running None) =
     (\<lparr>CheckHealthResult.Status = HealthStatusOk,
       Message = ''Data source is working: Step Function is accessible,S3 Bucket access is not being tested.''\<rparr>,
      [SFN_DescribeStateMachine \<lparr>DescribeStateMachineInput.StateMachineArn =
         ''arn:aws:states:us-east-1:123456789012:stateMachine:test-state-machine''\<rparr>])"
  by (simp add: CheckHealth_def mock_datasource_def mock_settings_def mock_sfnClient_def)

lemma CheckHealth_nil_client:
  "CheckHealth \<lparr>settings = mock_settings, sfnClient = None, s3Presigner = None\<rparr> =
     (\<lparr>CheckHealthResult.Status = HealthStatusOk,
       Message = ''Data source is working: S3 Bucket access is not being tested.''\<rparr>, [])"
  by (simp add: CheckHealth_def mock_settings_def)

text \<open>\<open>TestQueryData_StatusAction_WithCauseOnly\<close>: a timed-out execution with a cause and
  no error gives the fields status and cause.\<close>

lemma handleStatusAction_cause_only:
  "fst (handleStatusAction mock_packages
          (mock_datasource \<lparr>DescribeExecutionOutput.Status = ''TIMED_OUT'',
                             DescribeExecutionOutput.Error = None,
                             Cause = Some ''Task timed out''\<rparr> None) mock_status)
   = Returns (frame_response \<lparr>Frame.Name = ''step_function_status'', Fields =
       [\<lparr>Field.Name = ''status'', Values = [''TIMED_OUT'']\<rparr>,
        \<lparr>Field.Name = ''cause'', Values = [''Task timed out'']\<rparr>]\<rparr>)"
  using handleStatusAction_described [OF mock_status_JobId mock_parsed mock_client mock_described,
    of "\<lparr>DescribeExecutionOutput.Status = ''TIMED_OUT'', DescribeExecutionOutput.Error = None,
          Cause = Some ''Task timed out''\<rparr>" None]
  by (simp add: NewField_def)

text \<open>A handler on a datasource without a workflow client does not return.\<close>

lemma handleStatusAction_nil_client:
  "fst (handleStatusAction mock_packages
          \<lparr>settings = mock_settings, sfnClient = None, s3Presigner = None\<rparr> mock_status) = Panics"
  by (simp add: handleStatusAction_def mock_packages_def mock_status_def)

end
